theory Spec2Isabelle
  imports Main "HOL-Library.AList" "HOL-Library.Word"
begin

section \<open>Python strings as used by main.py\<close>

text \<open>
  A Python \<open>str\<close> is modelled as a \<^typ>\<open>string\<close>; every \<^typ>\<open>char\<close> stands for one
  code point (so the model covers the strings whose code points are below 256), and
  \<open>s[:n]\<close> is \<^term>\<open>take n s\<close>. The operations that do not look at the characters are
  polymorphic in the element type.
\<close>

definition isspace :: "char \<Rightarrow> bool" where
  \<comment> \<open>\<open>str.isspace\<close> on one code point below 256: TAB..CR, FS..US, SPACE, NEL, NBSP\<close>
  "isspace c =
     (let n = (of_char c :: nat)
      in (9 \<le> n \<and> n \<le> 13) \<or> (28 \<le> n \<and> n \<le> 32) \<or> n = 133 \<or> n = 160)"

definition strip :: "string \<Rightarrow> string" where
  \<comment> \<open>\<open>s.strip()\<close>: leading and trailing whitespace removed\<close>
  "strip s = rev (dropWhile isspace (rev (dropWhile isspace s)))"

definition startswith :: "'a list \<Rightarrow> 'a list \<Rightarrow> bool" where
  \<comment> \<open>\<open>s.startswith(p)\<close>\<close>
  "startswith s p = (take (length p) s = p)"

definition endswith :: "'a list \<Rightarrow> 'a list \<Rightarrow> bool" where
  \<comment> \<open>\<open>s.endswith(p)\<close>\<close>
  "endswith s p = (length p \<le> length s \<and> drop (length s - length p) s = p)"

function replace :: "'a list \<Rightarrow> 'a list \<Rightarrow> 'a list \<Rightarrow> 'a list" where
  \<comment> \<open>\<open>s.replace(old, new)\<close>: every occurrence of \<open>old\<close>, found from the left without overlap;
      an empty \<open>old\<close> matches before every character and at the end\<close>
  "replace s old new =
     (if old = [] then new @ concat (map (\<lambda>c. c # new) s)
      else if s = [] then []
      else if startswith s old then new @ replace (drop (length old) s) old new
      else hd s # replace (tl s) old new)"
  by pat_completeness auto
termination
  by (relation "measure (\<lambda>(s, old, new). length s)") auto

declare replace.simps [simp del]

fun contains :: "'a list \<Rightarrow> 'a list \<Rightarrow> bool" where
  \<comment> \<open>\<open>p in s\<close>: \<open>p\<close> occurs in \<open>s\<close> as a substring\<close>
  "contains [] p = (p = [])"
| "contains (c # cs) p = (startswith (c # cs) p \<or> contains cs p)"

function str_nat :: "nat \<Rightarrow> string" where
  \<comment> \<open>\<open>str(n)\<close> for a natural number: its decimal digits\<close>
  "str_nat n =
     (if n < 10 then [char_of (48 + n)]
      else str_nat (n div 10) @ [char_of (48 + n mod 10)])"
  by pat_completeness auto
termination
  by (relation "measure id") auto

declare str_nat.simps [simp del]

definition str_int :: "int \<Rightarrow> string" where
  \<comment> \<open>\<open>str(i)\<close>, as an f-string formats an \<open>int\<close>\<close>
  "str_int i = (if i < 0 then ''-'' @ str_nat (nat (- i)) else str_nat (nat i))"

section \<open>Values, exceptions and the material store\<close>

type_synonym pyfloat = "64 word"
  \<comment> \<open>a Python float, by its IEEE 754 bits: \<open>json.loads\<close> may return floats, the program
      never inspects them\<close>

datatype json =
    JNull
  | JBool bool
  | JInt int
  | JFloat pyfloat
  | JString string
  | JArray "json list"
  | JObject "(string \<times> json) list"

text \<open>
  \<^typ>\<open>json\<close> values are the Python values that \<open>json.loads\<close> returns and that a
  \<open>JSONResponse\<close> carries: \<^const>\<open>JNull\<close> is \<open>None\<close>, \<^const>\<open>JObject\<close> a \<open>dict\<close> with
  its items in order, \<^const>\<open>JArray\<close> a \<open>list\<close>.
\<close>

definition isfinite :: "pyfloat \<Rightarrow> bool" where
  \<comment> \<open>\<open>math.isfinite\<close>: the exponent field, bits 52 to 62, is not all ones (neither an
      infinity nor a NaN)\<close>
  "isfinite x = (take_bit 11 (drop_bit 52 x) \<noteq> 2047)"

fun json_compliant :: "json \<Rightarrow> bool" where
  \<comment> \<open>the values that \<open>json.dumps(..., allow_nan=False)\<close> serialises: those that hold no
      float that is an infinity or a NaN\<close>
  "json_compliant (JFloat x) = isfinite x"
| "json_compliant (JArray xs) = list_all json_compliant xs"
| "json_compliant (JObject kvs) = list_all (\<lambda>(k, v). json_compliant v) kvs"
| "json_compliant _ = True"

datatype exc =
    HTTPException (status_code: nat) (detail: string)
  | Error string
  \<comment> \<open>\<^const>\<open>Error\<close>: any other exception, raised by a collaborator or a library call, with
      its \<open>str(e)\<close>; when it leaves a handler, the framework answers with status 500\<close>

definition JSONResponse :: "json \<Rightarrow> exc + json" where
  \<comment> \<open>\<open>JSONResponse(content)\<close> renders its content when it is constructed, with
      \<open>allow_nan=False\<close>: a \<open>ValueError\<close> for a content with a float that is not finite
      (the other content that does not render, a string with a lone surrogate, has a code
      point above 255 and is not among the strings modelled)\<close>
  "JSONResponse content' =
     (if json_compliant content' then Inr content'
      else Inl (Error ''Out of range float values are not JSON compliant''))"

fun str_exc :: "exc \<Rightarrow> string" where
  \<comment> \<open>\<open>str(e)\<close>; for an \<open>HTTPException\<close> the framework prints \<open>"{status_code}: {detail}"\<close>\<close>
  "str_exc (HTTPException code d) = str_nat code @ '': '' @ d"
| "str_exc (Error msg) = msg"

record material =
  filename :: string
  content :: string
  "notes" :: "string option"
  quiz :: json

text \<open>
  \<open>lecture_materials\<close> is a \<open>dict\<close>: an association list with distinct keys in insertion
  order, read with \<^const>\<open>map_of\<close> and assigned with \<^const>\<open>AList.update\<close> (an existing key
  keeps its place, a new key goes to the end). The state also records, in order, the prompts
  handed to \<open>model.generate_content\<close>: the calls to the generative client are the only other
  effect of the handlers.
\<close>

record state =
  lecture_materials :: "(string \<times> material) list"
  prompts_sent :: "string list"

definition initial_state :: state where
  "initial_state = \<lparr>lecture_materials = [], prompts_sent = []\<rparr>"

type_synonym client = "string \<Rightarrow> string + string"
  \<comment> \<open>\<open>model.generate_content(prompt).text\<close>: \<^const>\<open>Inr\<close> the text, or \<^const>\<open>Inl\<close> the
      \<open>str(e)\<close> of the exception raised; the global \<open>model\<close> is a \<open>client option\<close>,
      \<^const>\<open>None\<close> when \<open>GEMINI_API_KEY\<close> is not set\<close>

datatype loads_result =
    Loaded json
  | JSONDecodeError
  | LoadsRaised string
  \<comment> \<open>the outcome of \<open>json.loads\<close>: a value, \<open>json.JSONDecodeError\<close>, or another exception\<close>

type_synonym result = "(exc + json) \<times> state"

definition except_Exception :: "string \<Rightarrow> result \<Rightarrow> result" where
  \<comment> \<open>\<open>except Exception as e: raise HTTPException(status_code=500, detail=f"{prefix}{str(e)}")\<close>\<close>
  "except_Exception prefix r =
     (case fst r of
        Inl e \<Rightarrow> (Inl (HTTPException 500 (prefix @ str_exc e)), snd r)
      | Inr v \<Rightarrow> r)"

definition success :: "string \<times> json" where
  \<open>success = (''status'', JString ''success'')\<close>

section \<open>POST /api/upload\<close>

definition text_content :: "string list \<Rightarrow> string" where
  \<comment> \<open>the loop over \<open>pdf_reader.pages\<close>, from the texts that \<open>extract_text\<close> returns\<close>
  "text_content pages = foldl (\<lambda>acc page. acc @ page @ ''\<newline>'') [] pages"

definition derive_material_id :: "string \<Rightarrow> string" where
  \<comment> \<open>\<open>file.filename.replace('.pdf', '').replace(' ', '_')\<close>\<close>
  "derive_material_id fname = replace (replace fname ''.pdf'' []) '' '' ''_''"

definition upload_pdf :: "state \<Rightarrow> string \<Rightarrow> string + string list \<Rightarrow> result" where
  \<comment> \<open>\<open>extracted\<close>: what reading the file, \<open>PdfReader\<close> and \<open>extract_text\<close> give, the texts of
      the pages or the \<open>str(e)\<close> of the exception one of them raises\<close>
  "upload_pdf st fname extracted =
     (if \<not> endswith fname ''.pdf'' then
        (Inl (HTTPException 400 ''Only PDF files are allowed''), st)
      else except_Exception ''Error processing PDF: ''
        (case extracted of
           Inl e \<Rightarrow> (Inl (Error e), st)
         | Inr pages \<Rightarrow>
             if strip (text_content pages) = [] then
               (Inl (HTTPException 400 ''No text content found in PDF''), st)
             else
               let material_id = derive_material_id fname
               in (JSONResponse (JObject
                     [success,
                      (''message'', JString ''PDF uploaded successfully''),
                      (''material_id'', JString material_id),
                      (''filename'', JString fname)]),
                   st\<lparr>lecture_materials :=
                        AList.update material_id
                          \<lparr>filename = fname, content = text_content pages,
                           notes = None, quiz = JNull\<rparr>
                          (lecture_materials st)\<rparr>)))"

section \<open>POST /api/generate-notes\<close>

definition notes_prompt :: "string \<Rightarrow> string" where
  \<open>notes_prompt content' =
     ''Based on the following lecture material, create comprehensive study notes. \<newline>'' @
     ''        Include:\<newline>'' @
     ''        - Key concepts and definitions\<newline>'' @
     ''        - Main topics covered\<newline>'' @
     ''        - Important points to remember\<newline>'' @
     ''        - Summary of each section\<newline>'' @
     ''        \<newline>'' @
     ''        Lecture Material:\<newline>'' @
     ''        '' @ take 4000 content' @ ''\<newline>'' @
     ''        \<newline>'' @
     ''        Please format the notes in a clear, structured markdown format.''\<close>

definition generate_notes :: "client option \<Rightarrow> state \<Rightarrow> string \<Rightarrow> result" where
  "generate_notes model st material_id =
     (case map_of (lecture_materials st) material_id of
        None \<Rightarrow> (Inl (HTTPException 404 ''Material not found''), st)
      | Some material \<Rightarrow>
          (case model of
             None \<Rightarrow> (Inl (HTTPException 500 ''Gemini API not configured''), st)
           | Some generate_content \<Rightarrow>
               except_Exception ''Error generating notes: ''
                 (let prompt = notes_prompt (content material);
                      st1 = st\<lparr>prompts_sent := prompts_sent st @ [prompt]\<rparr>
                  in case generate_content prompt of
                       Inl e \<Rightarrow> (Inl (Error e), st1)
                     | Inr notes' \<Rightarrow>
                         (JSONResponse (JObject [success, (''notes'', JString notes')]),
                          st1\<lparr>lecture_materials :=
                                AList.update material_id (material\<lparr>notes := Some notes'\<rparr>)
                                  (lecture_materials st1)\<rparr>))))"

section \<open>POST /api/generate-quiz\<close>

definition quiz_prompt :: "int \<Rightarrow> string \<Rightarrow> string" where
  \<open>quiz_prompt num_questions content' =
     ''Based on the following lecture material, create a quiz with '' @ str_int num_questions @
       '' multiple-choice questions.\<newline>'' @
     ''\<newline>'' @
     ''        For each question, provide:\<newline>'' @
     ''        1. The question text\<newline>'' @
     ''        2. Four answer options (A, B, C, D)\<newline>'' @
     ''        3. The correct answer\<newline>'' @
     ''        4. A brief explanation\<newline>'' @
     ''        \<newline>'' @
     ''        Format the output as a JSON array with this structure:\<newline>'' @
     ''        [\<newline>'' @
     ''            {\<newline>'' @
     ''                "question": "Question text here?",\<newline>'' @
     ''                "options": ["A) Option 1", "B) Option 2", "C) Option 3", "D) Option 4"],\<newline>'' @
     ''                "correct_answer": "A",\<newline>'' @
     ''                "explanation": "Explanation here"\<newline>'' @
     ''            }\<newline>'' @
     ''        ]\<newline>'' @
     ''        \<newline>'' @
     ''        Lecture Material:\<newline>'' @
     ''        '' @ take 4000 content' @ ''\<newline>'' @
     ''        \<newline>'' @
     ''        Return only valid JSON without any markdown formatting or code blocks.''\<close>

definition clean_quiz_text :: "string \<Rightarrow> string" where
  \<comment> \<open>from \<open>response.text\<close> to the string handed to \<open>json.loads\<close>\<close>
  "clean_quiz_text response_text =
     (let quiz_text = strip response_text
      in if startswith quiz_text ''```json'' then
           strip (replace (replace quiz_text ''```json'' []) ''```'' [])
         else if startswith quiz_text ''```'' then
           strip (replace quiz_text ''```'' [])
         else quiz_text)"

definition generate_quiz ::
  "client option \<Rightarrow> (string \<Rightarrow> loads_result) \<Rightarrow> state \<Rightarrow> string \<Rightarrow> int \<Rightarrow> result" where
  \<comment> \<open>\<open>loads\<close> is \<open>json.loads\<close>; the request is \<open>QuizRequest(material_id, num_questions)\<close>\<close>
  "generate_quiz model loads st material_id num_questions =
     (case map_of (lecture_materials st) material_id of
        None \<Rightarrow> (Inl (HTTPException 404 ''Material not found''), st)
      | Some material \<Rightarrow>
          (case model of
             None \<Rightarrow> (Inl (HTTPException 500 ''Gemini API not configured''), st)
           | Some generate_content \<Rightarrow>
               except_Exception ''Error generating quiz: ''
                 (let prompt = quiz_prompt num_questions (content material);
                      st1 = st\<lparr>prompts_sent := prompts_sent st @ [prompt]\<rparr>
                  in case generate_content prompt of
                       Inl e \<Rightarrow> (Inl (Error e), st1)
                     | Inr response_text \<Rightarrow>
                         (let quiz_text = clean_quiz_text response_text
                          in case (case loads quiz_text of
                                     Loaded v \<Rightarrow> Inr v
                                   | JSONDecodeError \<Rightarrow>
                                       Inr (JObject [(''raw_text'', JString quiz_text)])
                                   | LoadsRaised e \<Rightarrow> Inl (Error e)) of
                               Inl e \<Rightarrow> (Inl e, st1)
                             | Inr quiz' \<Rightarrow>
                                 (JSONResponse (JObject [success, (''quiz'', quiz')]),
                                  st1\<lparr>lecture_materials :=
                                        AList.update material_id (material\<lparr>quiz := quiz'\<rparr>)
                                          (lecture_materials st1)\<rparr>)))))"

section \<open>POST /api/chat\<close>

definition generic_context :: string where
  \<open>generic_context =
     ''You are an AI tutor. Help the student with their question in a clear and educational manner.''\<close>

definition chat_context :: "state \<Rightarrow> string option \<Rightarrow> string" where
  \<comment> \<open>\<open>if request.material_id and request.material_id in lecture_materials\<close>: \<open>None\<close> and the
      empty string are both false\<close>
  \<open>chat_context st material_id =
     (case (case material_id of
              None \<Rightarrow> None
            | Some i \<Rightarrow> if i = [] then None else map_of (lecture_materials st) i) of
        Some material \<Rightarrow>
          ''You are an AI tutor helping a student understand the following lecture material:\<newline>'' @
          ''\<newline>'' @
          take 3000 (content material) @ ''\<newline>'' @
          ''\<newline>'' @
          ''Based on this lecture material, answer the student's question in a helpful, educational manner.''
      | None \<Rightarrow> generic_context)\<close>

definition chat_prompt :: "string \<Rightarrow> string \<Rightarrow> string" where
  \<open>chat_prompt context' message =
     context' @ ''\<newline>'' @
     ''\<newline>'' @
     ''Student's question: '' @ message @ ''\<newline>'' @
     ''\<newline>'' @
     ''Please provide a clear, helpful answer.''\<close>

definition chat_with_tutor ::
  "client option \<Rightarrow> state \<Rightarrow> string \<Rightarrow> string option \<Rightarrow> result" where
  \<comment> \<open>the request is \<open>ChatRequest(message, material_id)\<close>\<close>
  "chat_with_tutor model st message material_id =
     (case model of
        None \<Rightarrow> (Inl (HTTPException 500 ''Gemini API not configured''), st)
      | Some generate_content \<Rightarrow>
          except_Exception ''Error chatting with tutor: ''
            (let prompt = chat_prompt (chat_context st material_id) message;
                 st1 = st\<lparr>prompts_sent := prompts_sent st @ [prompt]\<rparr>
             in case generate_content prompt of
                  Inl e \<Rightarrow> (Inl (Error e), st1)
                | Inr answer \<Rightarrow>
                    (JSONResponse (JObject [success, (''response'', JString answer)]), st1)))"

section \<open>GET /api/materials and GET /api/material/{material_id}\<close>

definition json_of_notes :: "string option \<Rightarrow> json" where
  "json_of_notes n = (case n of None \<Rightarrow> JNull | Some text \<Rightarrow> JString text)"

definition list_materials :: "state \<Rightarrow> result" where
  "list_materials st =
     (JSONResponse (JObject
        [(''materials'',
          JArray (map (\<lambda>(mat_id, mat_data).
                         JObject
                           [(''material_id'', JString mat_id),
                            (''filename'', JString (filename mat_data)),
                            (''has_notes'', JBool (notes mat_data \<noteq> None)),
                            (''has_quiz'', JBool (quiz mat_data \<noteq> JNull))])
                      (lecture_materials st)))]),
      st)"

definition get_material :: "state \<Rightarrow> string \<Rightarrow> result" where
  \<comment> \<open>there is no \<open>try\<close> here: an exception of \<open>JSONResponse\<close> leaves the handler\<close>
  "get_material st material_id =
     (case map_of (lecture_materials st) material_id of
        None \<Rightarrow> (Inl (HTTPException 404 ''Material not found''), st)
      | Some material \<Rightarrow>
          (JSONResponse (JObject
             [(''material_id'', JString material_id),
              (''filename'', JString (filename material)),
              (''content_preview'', JString (take 500 (content material) @ ''...'')),
              (''notes'', json_of_notes (notes material)),
              (''quiz'', quiz material)]),
           st))"

section \<open>Runs of the service\<close>

datatype request =
    Upload string "string + string list"
  | GenerateNotes "client option" string
  | GenerateQuiz "client option" "string \<Rightarrow> loads_result" string int
  | Chat "client option" string "string option"
  | ListMaterials
  | GetMaterial string

text \<open>
  A request carries what the collaborators answer while it is handled (the extractor, the
  generative client, \<open>json.loads\<close>), so that a run fixes nothing about them.
\<close>

fun handle :: "state \<Rightarrow> request \<Rightarrow> result" where
  "handle st (Upload fname extracted) = upload_pdf st fname extracted"
| "handle st (GenerateNotes model material_id) = generate_notes model st material_id"
| "handle st (GenerateQuiz model loads material_id n) = generate_quiz model loads st material_id n"
| "handle st (Chat model message material_id) = chat_with_tutor model st message material_id"
| "handle st ListMaterials = list_materials st"
| "handle st (GetMaterial material_id) = get_material st material_id"

definition run :: "request list \<Rightarrow> state" where
  \<comment> \<open>the state after the requests, handled in order from the start of the process\<close>
  "run reqs = foldl (\<lambda>st req. snd (handle st req)) initial_state reqs"

definition content_nonblank :: "state \<Rightarrow> bool" where
  \<comment> \<open>every stored material has a content that is not empty and not all whitespace\<close>
  "content_nonblank st =
     list_all (\<lambda>(mat_id, mat_data).
                 content mat_data \<noteq> [] \<and> \<not> list_all isspace (content mat_data))
       (lecture_materials st)"

definition spec_material_id :: "string \<Rightarrow> string" where
  \<comment> \<open>the id as the specification words it: the trailing \<open>.pdf\<close> removed from the filename,
      then every space replaced by an underscore\<close>
  "spec_material_id fname =
     map (\<lambda>c. if c = CHR '' '' then CHR ''_'' else c) (take (length fname - length ''.pdf'') fname)"

section \<open>Facts about the string operations\<close>

lemma replace_Nil [simp]: "replace [] old new = (if old = [] then new else [])"
  by (simp add: replace.simps)

lemma replace_Cons [simp]:
  "old \<noteq> [] \<Longrightarrow> replace (c # cs) old new =
     (if startswith (c # cs) old then new @ replace (drop (length old) (c # cs)) old new
      else c # replace cs old new)"
  by (subst replace.simps) simp

lemma replace_char: "replace s [a] [b] = map (\<lambda>c. if c = a then b else c) s"
  by (induction s) (simp_all add: startswith_def)

lemma replace_absent: "old \<noteq> [] \<Longrightarrow> \<not> contains s old \<Longrightarrow> replace s old new = s"
  by (induction s) simp_all

lemma strip_Nil_iff: "strip s = [] \<longleftrightarrow> list_all isspace s"
proof -
  have "strip s = [] \<longleftrightarrow> dropWhile isspace (rev (dropWhile isspace s)) = []"
    by (simp add: strip_def)
  also have "\<dots> \<longleftrightarrow> dropWhile isspace s = []"
  proof (cases "dropWhile isspace s")
    case Nil
    then show ?thesis by (simp del: dropWhile_eq_Nil_conv)
  next
    case (Cons x xs)
    then have "\<not> isspace x"
      using hd_dropWhile [of isspace s] by simp
    with Cons show ?thesis
      by (auto simp: dropWhile_eq_Nil_conv)
  qed
  also have "\<dots> \<longleftrightarrow> list_all isspace s"
    by (simp add: dropWhile_eq_Nil_conv list_all_iff)
  finally show ?thesis .
qed

lemma foldl_text: "foldl (\<lambda>acc page. acc @ page @ sep) acc pages = acc @ concat (map (\<lambda>page. page @ sep) pages)"
  by (induction pages arbitrary: acc) simp_all

lemma text_content_concat: "text_content pages = concat (map (\<lambda>page. page @ ''\<newline>'') pages)"
  by (simp add: text_content_def foldl_text)



lemma startswith_appendD:
  assumes "startswith (s @ t) p" and "s \<noteq> []" and "t \<noteq> []" and "hd t \<notin> set (tl p)"
  shows "startswith s p"
proof (cases "length p \<le> length s")
  case True
  with assms(1) show ?thesis by (simp add: startswith_def)
next
  case False
  then obtain k where k: "length p - length s = Suc k"
    by (cases "length p - length s") auto
  from assms(3) obtain b bs where t: "t = b # bs" by (cases t) auto
  from assms(2) obtain a as where s: "s = a # as" by (cases s) auto
  from assms(1) False k have "p = s @ take (Suc k) t"
    by (simp add: startswith_def)
  with s t have "tl p = as @ b # take k bs" by simp
  with assms(4) t show ?thesis by simp
qed

lemma replace_before_suffix:
  assumes "old \<noteq> []" and "t \<noteq> []" and "hd t \<notin> set (tl old)"
  shows "\<not> contains s old \<Longrightarrow> replace (s @ t) old new = s @ replace t old new"
proof (induction s)
  case Nil
  show ?case by simp
next
  case (Cons c cs)
  then have "\<not> startswith (c # cs) old" and rest: "\<not> contains cs old" by simp_all
  then have "\<not> startswith ((c # cs) @ t) old"
    using startswith_appendD [of "c # cs" t old] assms by blast
  with assms(1) Cons.IH [OF rest] show ?case by simp
qed

lemma replace_pdf_suffix:
  "\<not> contains stem ''.pdf'' \<Longrightarrow> replace (stem @ ''.pdf'') ''.pdf'' [] = stem"
  by (simp add: replace_before_suffix startswith_def)



lemma strip_id:
  assumes "s \<noteq> []" and "\<not> isspace (hd s)" and "\<not> isspace (last s)"
  shows "strip s = s"
proof -
  from assms(1,2) have front: "dropWhile isspace s = s"
    by (cases s) simp_all
  from assms(1,3) have "dropWhile isspace (rev s) = rev s"
    by (cases s rule: rev_cases) simp_all
  with front show ?thesis by (simp add: strip_def)
qed

section \<open>Facts about upload\<close>

lemma endswith_append: "endswith (s @ p) p"
  by (simp add: endswith_def)

lemma upload_pdf_success:
  assumes "endswith fname ''.pdf''" and "strip (text_content pages) \<noteq> []"
  shows "upload_pdf st fname (Inr pages) =
     (Inr (JObject
        [success,
         (''message'', JString ''PDF uploaded successfully''),
         (''material_id'', JString (derive_material_id fname)),
         (''filename'', JString fname)]),
      st\<lparr>lecture_materials :=
           AList.update (derive_material_id fname)
             \<lparr>filename = fname, content = text_content pages, notes = None, quiz = JNull\<rparr>
             (lecture_materials st)\<rparr>)"
  using assms by (simp add: upload_pdf_def except_Exception_def JSONResponse_def success_def Let_def)

lemma upload_pdf_Inr_iff:
  "fst (upload_pdf st fname extracted) = Inr resp \<Longrightarrow>
     \<exists>pages. extracted = Inr pages \<and> endswith fname ''.pdf'' \<and> strip (text_content pages) \<noteq> []"
  by (auto simp: upload_pdf_def except_Exception_def JSONResponse_def success_def Let_def split: if_splits sum.splits)

lemma derive_material_id_stem:
  "\<not> contains stem ''.pdf'' \<Longrightarrow>
     derive_material_id (stem @ ''.pdf'') = map (\<lambda>c. if c = CHR '' '' then CHR ''_'' else c) stem"
  by (simp add: derive_material_id_def replace_pdf_suffix replace_char)

section \<open>The claims about upload\<close>

text \<open>
  C1. An upload of a \<open>.pdf\<close> file whose extracted text is empty or all whitespace should
  fail with status 400 and create no material. The handler raises the 400 inside its own
  \<open>try\<close> block, whose \<open>except Exception\<close> clause catches it and raises 500 instead: for
  \<open>scan.pdf\<close> with one page of empty text the answer is an error of status 500, and the
  state is unchanged.
\<close>

theorem upload_blank_text_status:
  "isl (fst (upload_pdf initial_state ''scan.pdf'' (Inr [[]])))
   \<and> status_code (projl (fst (upload_pdf initial_state ''scan.pdf'' (Inr [[]])))) = 500
   \<and> snd (upload_pdf initial_state ''scan.pdf'' (Inr [[]])) = initial_state"
  by (simp add: upload_pdf_def endswith_def text_content_def strip_def isspace_def
      except_Exception_def JSONResponse_def success_def)

text \<open>
  C2, as stated: the material id is the filename with the trailing \<open>.pdf\<close> removed and
  every space replaced by an underscore. It fails for \<open>a.pdf.pdf\<close>: the handler answers
  with the id \<open>a\<close>, where the trailing \<open>.pdf\<close> removed leaves \<open>a.pdf\<close>.
\<close>

theorem material_id_counterexample:
  "endswith ''a.pdf.pdf'' ''.pdf''
   \<and> fst (upload_pdf initial_state ''a.pdf.pdf'' (Inr [''x''])) =
       Inr (JObject
         [success,
          (''message'', JString ''PDF uploaded successfully''),
          (''material_id'', JString ''a''),
          (''filename'', JString ''a.pdf.pdf'')])
   \<and> spec_material_id ''a.pdf.pdf'' = ''a.pdf''
   \<and> derive_material_id ''a.pdf.pdf'' \<noteq> spec_material_id ''a.pdf.pdf''"
  by (simp add: upload_pdf_def endswith_def text_content_def strip_def isspace_def Let_def
      except_Exception_def JSONResponse_def success_def derive_material_id_def startswith_def spec_material_id_def)

text \<open>
  C2, amended: the material id is the filename with every occurrence of \<open>.pdf\<close> removed
  (found from the left, without overlap) and then every space replaced by an underscore.
  For a filename in which \<open>.pdf\<close> occurs only as its ending, this is the filename with the
  trailing \<open>.pdf\<close> removed and every space replaced by an underscore, and a successful
  upload answers with that id; \<open>lecture notes.pdf\<close> gives \<open>lecture_notes\<close>.
\<close>

theorem material_id_of_filename:
  "derive_material_id fname =
     map (\<lambda>c. if c = CHR '' '' then CHR ''_'' else c) (replace fname ''.pdf'' [])
   \<and> (\<not> contains stem ''.pdf'' \<longrightarrow>
        derive_material_id (stem @ ''.pdf'') = spec_material_id (stem @ ''.pdf'')
        \<and> (strip (text_content pages) \<noteq> [] \<longrightarrow>
             fst (upload_pdf st (stem @ ''.pdf'') (Inr pages)) =
               Inr (JObject
                 [success,
                  (''message'', JString ''PDF uploaded successfully''),
                  (''material_id'', JString (spec_material_id (stem @ ''.pdf''))),
                  (''filename'', JString (stem @ ''.pdf''))])))
   \<and> derive_material_id ''lecture notes.pdf'' = ''lecture_notes''"
proof (intro conjI impI)
  show "derive_material_id fname =
     map (\<lambda>c. if c = CHR '' '' then CHR ''_'' else c) (replace fname ''.pdf'' [])"
    by (simp add: derive_material_id_def replace_char)
  show "derive_material_id ''lecture notes.pdf'' = ''lecture_notes''"
    by (simp add: derive_material_id_def startswith_def)
next
  assume stem: "\<not> contains stem ''.pdf''"
  then show eq: "derive_material_id (stem @ ''.pdf'') = spec_material_id (stem @ ''.pdf'')"
    by (simp add: derive_material_id_stem spec_material_id_def)
  assume "strip (text_content pages) \<noteq> []"
  then show "fst (upload_pdf st (stem @ ''.pdf'') (Inr pages)) =
               Inr (JObject
                 [success,
                  (''message'', JString ''PDF uploaded successfully''),
                  (''material_id'', JString (spec_material_id (stem @ ''.pdf''))),
                  (''filename'', JString (stem @ ''.pdf''))])"
    using eq by (simp add: upload_pdf_success endswith_append)
qed

theorem material_id_of_filename_witness:
  "\<not> contains ''lecture notes'' ''.pdf''
   \<and> strip (text_content [''Week 1'']) \<noteq> []
   \<and> derive_material_id (''lecture notes'' @ ''.pdf'') = ''lecture_notes''
   \<and> fst (upload_pdf initial_state (''lecture notes'' @ ''.pdf'') (Inr [''Week 1''])) =
       Inr (JObject
         [success,
          (''message'', JString ''PDF uploaded successfully''),
          (''material_id'', JString ''lecture_notes''),
          (''filename'', JString ''lecture notes.pdf'')])"
proof -
  have h1: "\<not> contains ''lecture notes'' ''.pdf''"
    by (simp add: startswith_def)
  have h2: "strip (text_content [''Week 1'']) \<noteq> []"
    by (simp add: text_content_def strip_def isspace_def)
  have s: "spec_material_id (''lecture notes'' @ ''.pdf'') = ''lecture_notes''"
    by (simp add: spec_material_id_def)
  from material_id_of_filename [of "''x''" "''lecture notes''" "[''Week 1'']" initial_state] h1 h2 s
  show ?thesis by simp
qed

lemma run_hello:
  "run [Upload ''x.pdf'' (Inr [''Hello world''])] =
     \<lparr>lecture_materials =
        [(''x'', \<lparr>filename = ''x.pdf'', content = ''Hello world\<newline>'',
                  notes = None, quiz = JNull\<rparr>)],
      prompts_sent = []\<rparr>"
  by (simp add: run_def upload_pdf_def endswith_def text_content_def strip_def isspace_def Let_def
      except_Exception_def JSONResponse_def success_def derive_material_id_def startswith_def initial_state_def)

text \<open>
  C9. After a successful upload, the record stored under the derived id has the uploaded
  filename, as content the texts of the pages in order, each followed by a newline, and
  neither notes nor quiz. Uploading \<open>x.pdf\<close> with the single page text \<open>Hello world\<close> to
  the empty store leaves exactly the material \<open>x\<close> with content \<open>Hello world\<close> and a
  newline.
\<close>

theorem upload_stores_page_texts:
  "(upload_pdf st fname extracted = (Inr resp, st') \<longrightarrow>
      (\<exists>pages. extracted = Inr pages
         \<and> map_of (lecture_materials st') (derive_material_id fname) =
             Some \<lparr>filename = fname,
                   content = concat (map (\<lambda>page. page @ ''\<newline>'') pages),
                   notes = None, quiz = JNull\<rparr>))
   \<and> upload_pdf initial_state ''x.pdf'' (Inr [''Hello world'']) =
       (Inr (JObject
          [success,
           (''message'', JString ''PDF uploaded successfully''),
           (''material_id'', JString ''x''),
           (''filename'', JString ''x.pdf'')]),
        \<lparr>lecture_materials =
           [(''x'', \<lparr>filename = ''x.pdf'', content = ''Hello world\<newline>'',
                     notes = None, quiz = JNull\<rparr>)],
         prompts_sent = []\<rparr>)"
proof (intro conjI impI)
  assume up: "upload_pdf st fname extracted = (Inr resp, st')"
  then have "fst (upload_pdf st fname extracted) = Inr resp" by simp
  then obtain pages where pages: "extracted = Inr pages" "endswith fname ''.pdf''"
      "strip (text_content pages) \<noteq> []"
    using upload_pdf_Inr_iff by blast
  with up have "st' = st\<lparr>lecture_materials :=
           AList.update (derive_material_id fname)
             \<lparr>filename = fname, content = text_content pages, notes = None, quiz = JNull\<rparr>
             (lecture_materials st)\<rparr>"
    by (simp add: upload_pdf_success)
  then have "map_of (lecture_materials st') (derive_material_id fname) =
             Some \<lparr>filename = fname,
                   content = concat (map (\<lambda>page. page @ ''\<newline>'') pages),
                   notes = None, quiz = JNull\<rparr>"
    by (simp add: update_conv' text_content_concat)
  with pages(1) show "\<exists>pages. extracted = Inr pages
         \<and> map_of (lecture_materials st') (derive_material_id fname) =
             Some \<lparr>filename = fname,
                   content = concat (map (\<lambda>page. page @ ''\<newline>'') pages),
                   notes = None, quiz = JNull\<rparr>"
    by blast
next
  show "upload_pdf initial_state ''x.pdf'' (Inr [''Hello world'']) =
       (Inr (JObject
          [success,
           (''message'', JString ''PDF uploaded successfully''),
           (''material_id'', JString ''x''),
           (''filename'', JString ''x.pdf'')]),
        \<lparr>lecture_materials =
           [(''x'', \<lparr>filename = ''x.pdf'', content = ''Hello world\<newline>'',
                     notes = None, quiz = JNull\<rparr>)],
         prompts_sent = []\<rparr>)"
    by (simp add: upload_pdf_def endswith_def text_content_def strip_def isspace_def Let_def
      except_Exception_def JSONResponse_def success_def derive_material_id_def startswith_def initial_state_def)
qed

theorem upload_stores_page_texts_witness:
  "upload_pdf initial_state ''ab.pdf'' (Inr [''one'', ''two'']) =
     (Inr (JObject
          [success,
           (''message'', JString ''PDF uploaded successfully''),
           (''material_id'', JString ''ab''),
           (''filename'', JString ''ab.pdf'')]),
      \<lparr>lecture_materials =
           [(''ab'', \<lparr>filename = ''ab.pdf'', content = ''one\<newline>two\<newline>'',
                     notes = None, quiz = JNull\<rparr>)],
       prompts_sent = []\<rparr>)
   \<and> (\<exists>pages. (Inr [''one'', ''two''] :: string + string list) = Inr pages
         \<and> map_of [(''ab'', \<lparr>filename = ''ab.pdf'', content = ''one\<newline>two\<newline>'',
                     notes = None, quiz = JNull\<rparr>)] (derive_material_id ''ab.pdf'') =
             Some \<lparr>filename = ''ab.pdf'',
                   content = concat (map (\<lambda>page. page @ ''\<newline>'') pages),
                   notes = None, quiz = JNull\<rparr>)"
proof -
  have up: "upload_pdf initial_state ''ab.pdf'' (Inr [''one'', ''two'']) =
     (Inr (JObject
          [success,
           (''message'', JString ''PDF uploaded successfully''),
           (''material_id'', JString ''ab''),
           (''filename'', JString ''ab.pdf'')]),
      \<lparr>lecture_materials =
           [(''ab'', \<lparr>filename = ''ab.pdf'', content = ''one\<newline>two\<newline>'',
                     notes = None, quiz = JNull\<rparr>)],
       prompts_sent = []\<rparr>)"
    by (simp add: upload_pdf_def endswith_def text_content_def strip_def isspace_def Let_def
      except_Exception_def JSONResponse_def success_def derive_material_id_def startswith_def initial_state_def)
  from upload_stores_page_texts [THEN conjunct1, rule_format, OF up] up
  show ?thesis by simp
qed

section \<open>The claims about notes and chat\<close>

text \<open>
  C7. For a material id that is not in the store, generate-notes fails with status 404,
  whatever the generative client is (configured or not); the state, and with it the
  list of prompts handed to the client, is unchanged, so the client has not been called.
\<close>

theorem generate_notes_unknown_id:
  "map_of (lecture_materials st) material_id = None \<Longrightarrow>
     generate_notes model st material_id = (Inl (HTTPException 404 ''Material not found''), st)"
  by (simp add: generate_notes_def)

theorem generate_notes_unknown_id_witness:
  "map_of (lecture_materials (run [Upload ''x.pdf'' (Inr [''Hello world''])])) ''y'' = None
   \<and> generate_notes (Some (\<lambda>prompt. Inr ''Notes'')) (run [Upload ''x.pdf'' (Inr [''Hello world''])]) ''y'' =
       (Inl (HTTPException 404 ''Material not found''), run [Upload ''x.pdf'' (Inr [''Hello world''])])
   \<and> generate_notes None (run [Upload ''x.pdf'' (Inr [''Hello world''])]) ''y'' =
       (Inl (HTTPException 404 ''Material not found''), run [Upload ''x.pdf'' (Inr [''Hello world''])])"
proof -
  have absent: "map_of (lecture_materials (run [Upload ''x.pdf'' (Inr [''Hello world''])])) ''y'' = None"
    by (simp add: run_hello)
  from generate_notes_unknown_id [OF absent, of "Some (\<lambda>prompt. Inr ''Notes'')"]
    generate_notes_unknown_id [OF absent, of None] absent
  show ?thesis by simp
qed

text \<open>
  C4. A chat request whose material id is not in the store gives the same result and the
  same state as the request with no material id: the context is the generic tutoring
  preamble, a configured client is called with the prompt built from it and its text is
  returned, and an error, if any, has status 500, never 404.
\<close>

theorem chat_unknown_material:
  assumes "map_of (lecture_materials st) i = None"
  shows "chat_with_tutor model st message (Some i) = chat_with_tutor model st message None
   \<and> chat_context st (Some i) = generic_context
   \<and> chat_with_tutor (Some generate_content) st message (Some i) =
       (case generate_content (chat_prompt generic_context message) of
          Inl e \<Rightarrow> Inl (HTTPException 500 (''Error chatting with tutor: '' @ e))
        | Inr answer \<Rightarrow> Inr (JObject [success, (''response'', JString answer)]),
        st\<lparr>prompts_sent := prompts_sent st @ [chat_prompt generic_context message]\<rparr>)
   \<and> (\<forall>e. fst (chat_with_tutor model st message (Some i)) = Inl e \<longrightarrow>
          (\<exists>d. e = HTTPException 500 d))"
proof -
  from assms have ctx: "chat_context st (Some i) = generic_context"
    by (simp add: chat_context_def)
  moreover have "chat_context st None = generic_context"
    by (simp add: chat_context_def)
  ultimately show ?thesis
    by (auto simp: chat_with_tutor_def except_Exception_def JSONResponse_def success_def Let_def split: option.splits sum.splits)
qed

theorem chat_unknown_material_witness:
  "map_of (lecture_materials (run [Upload ''x.pdf'' (Inr [''Hello world''])])) ''ghost'' = None
   \<and> fst (chat_with_tutor (Some (\<lambda>prompt. Inr ''Hi'')) (run [Upload ''x.pdf'' (Inr [''Hello world''])])
        ''Hello?'' (Some ''ghost'')) =
       Inr (JObject [success, (''response'', JString ''Hi'')])
   \<and> chat_with_tutor (Some (\<lambda>prompt. Inr ''Hi'')) (run [Upload ''x.pdf'' (Inr [''Hello world''])])
        ''Hello?'' (Some ''ghost'') =
      chat_with_tutor (Some (\<lambda>prompt. Inr ''Hi'')) (run [Upload ''x.pdf'' (Inr [''Hello world''])])
        ''Hello?'' None"
proof -
  have absent:
    "map_of (lecture_materials (run [Upload ''x.pdf'' (Inr [''Hello world''])])) ''ghost'' = None"
    by (simp add: run_hello)
  note at_ghost = chat_unknown_material [OF absent, of "Some (\<lambda>prompt. Inr ''Hi'')" "''Hello?''"
      "\<lambda>prompt. Inr ''Hi''"]
  from at_ghost [THEN conjunct2, THEN conjunct2, THEN conjunct1]
  have "fst (chat_with_tutor (Some (\<lambda>prompt. Inr ''Hi'')) (run [Upload ''x.pdf'' (Inr [''Hello world''])])
        ''Hello?'' (Some ''ghost'')) =
       Inr (JObject [success, (''response'', JString ''Hi'')])"
    by simp
  with absent at_ghost [THEN conjunct1] show ?thesis by blast
qed

text \<open>
  C10. Chat never changes the material store: for every client (absent, answering or
  raising), every state, message and material id, the store after the request is the
  store before it.
\<close>

theorem chat_keeps_materials:
  "lecture_materials (snd (chat_with_tutor model st message material_id)) = lecture_materials st"
  by (simp add: chat_with_tutor_def except_Exception_def JSONResponse_def success_def Let_def split: option.splits sum.splits)

section \<open>Facts about quiz generation\<close>






lemma clean_no_fence:
  assumes "\<not> startswith (strip response_text) ''```''"
  shows "clean_quiz_text response_text = strip response_text"
proof -
  from assms have "\<not> startswith (strip response_text) (''```'' @ ''json'')"
    by (auto simp: startswith_def dest: arg_cong [where f = "take 3"])
  with assms show ?thesis by (simp add: clean_quiz_text_def)
qed

lemma generate_quiz_returns:
  assumes "map_of (lecture_materials st) material_id = Some material"
    and "generate_content (quiz_prompt n (content material)) = Inr response_text"
  shows "generate_quiz (Some generate_content) loads st material_id n =
     (case loads (clean_quiz_text response_text) of
        Loaded v \<Rightarrow>
          (if json_compliant v then Inr (JObject [success, (''quiz'', v)])
           else Inl (HTTPException 500
             (''Error generating quiz: '' @ ''Out of range float values are not JSON compliant'')),
           \<lparr>lecture_materials =
              AList.update material_id (material\<lparr>quiz := v\<rparr>) (lecture_materials st),
            prompts_sent = prompts_sent st @ [quiz_prompt n (content material)]\<rparr>)
      | JSONDecodeError \<Rightarrow>
          (Inr (JObject [success,
             (''quiz'', JObject [(''raw_text'', JString (clean_quiz_text response_text))])]),
           \<lparr>lecture_materials =
              AList.update material_id
                (material\<lparr>quiz := JObject [(''raw_text'', JString (clean_quiz_text response_text))]\<rparr>)
                (lecture_materials st),
            prompts_sent = prompts_sent st @ [quiz_prompt n (content material)]\<rparr>)
      | LoadsRaised e \<Rightarrow>
          (Inl (HTTPException 500 (''Error generating quiz: '' @ e)),
           \<lparr>lecture_materials = lecture_materials st,
            prompts_sent = prompts_sent st @ [quiz_prompt n (content material)]\<rparr>))"
  using assms
  by (simp add: generate_quiz_def except_Exception_def JSONResponse_def success_def Let_def
      split: loads_result.splits)

lemma clean_open_brackets:
  "clean_quiz_text (replicate 100000 CHR ''['') = replicate 100000 CHR ''[''"
proof -
  have "strip (replicate 100000 CHR ''['') = replicate 100000 CHR ''[''"
    by (rule strip_id) (simp_all add: isspace_def)
  moreover have "\<not> startswith (replicate 100000 CHR ''['') ''```''"
    by (simp add: startswith_def)
  ultimately show ?thesis by (simp add: clean_no_fence)
qed

section \<open>The claims about quiz generation\<close>

text \<open>
  C3, as stated: when the cleaned model response fails strict JSON parsing, generate-quiz
  stores and returns the \<open>raw_text\<close> object with success, and malformed model output never
  gives an error response. It fails for a response of 100000 opening brackets: the text is
  not JSON, \<open>json.loads\<close> fails on it with a \<open>RecursionError\<close>, which is not a
  \<open>JSONDecodeError\<close>, and the handler answers with status 500 and stores no quiz.
\<close>

theorem quiz_malformed_counterexample:
  "clean_quiz_text (replicate 100000 CHR ''['') = replicate 100000 CHR ''[''
   \<and> fst (generate_quiz (Some (\<lambda>prompt. Inr (replicate 100000 CHR ''['')))
        (\<lambda>text. if text = replicate 100000 CHR ''[''
           then LoadsRaised
             ''maximum recursion depth exceeded while decoding a JSON array from a unicode string''
           else JSONDecodeError)
        (run [Upload ''x.pdf'' (Inr [''Hello world''])]) ''x'' 5) =
       Inl (HTTPException 500
         ''Error generating quiz: maximum recursion depth exceeded while decoding a JSON array from a unicode string'')
   \<and> map_of (lecture_materials (snd (generate_quiz (Some (\<lambda>prompt. Inr (replicate 100000 CHR ''['')))
        (\<lambda>text. if text = replicate 100000 CHR ''[''
           then LoadsRaised
             ''maximum recursion depth exceeded while decoding a JSON array from a unicode string''
           else JSONDecodeError)
        (run [Upload ''x.pdf'' (Inr [''Hello world''])]) ''x'' 5))) ''x'' =
       Some \<lparr>filename = ''x.pdf'', content = ''Hello world\<newline>'', notes = None, quiz = JNull\<rparr>"
proof -
  have m: "map_of (lecture_materials (run [Upload ''x.pdf'' (Inr [''Hello world''])])) ''x'' =
     Some \<lparr>filename = ''x.pdf'', content = ''Hello world\<newline>'', notes = None, quiz = JNull\<rparr>"
    by (simp add: run_hello)
  from generate_quiz_returns [of "run [Upload ''x.pdf'' (Inr [''Hello world''])]" "''x''" _
      "\<lambda>prompt. Inr (replicate 100000 CHR ''['')" 5 "replicate 100000 CHR ''[''"
      "\<lambda>text. if text = replicate 100000 CHR ''[''
           then LoadsRaised
             ''maximum recursion depth exceeded while decoding a JSON array from a unicode string''
           else JSONDecodeError", OF m]
  have "generate_quiz (Some (\<lambda>prompt. Inr (replicate 100000 CHR ''['')))
        (\<lambda>text. if text = replicate 100000 CHR ''[''
           then LoadsRaised
             ''maximum recursion depth exceeded while decoding a JSON array from a unicode string''
           else JSONDecodeError)
        (run [Upload ''x.pdf'' (Inr [''Hello world''])]) ''x'' 5 =
     (Inl (HTTPException 500
         ''Error generating quiz: maximum recursion depth exceeded while decoding a JSON array from a unicode string''),
      \<lparr>lecture_materials = lecture_materials (run [Upload ''x.pdf'' (Inr [''Hello world''])]),
       prompts_sent = prompts_sent (run [Upload ''x.pdf'' (Inr [''Hello world''])]) @
          [quiz_prompt 5 (content \<lparr>filename = ''x.pdf'', content = ''Hello world\<newline>'',
              notes = None, quiz = JNull\<rparr>)]\<rparr>)"
    by (simp add: clean_open_brackets)
  with m show ?thesis by (simp add: clean_open_brackets)
qed

text \<open>
  C3, amended: for a stored material and a configured client that answers, if \<open>json.loads\<close>
  raises \<open>JSONDecodeError\<close> on the cleaned response, generate-quiz succeeds: it returns, and
  stores as the quiz of the material, the object with the single key \<open>raw_text\<close> holding
  the cleaned string. Model output on which \<open>json.loads\<close> raises \<open>JSONDecodeError\<close> never
  gives an error response.
\<close>

theorem quiz_parse_failure_raw_text:
  assumes "map_of (lecture_materials st) material_id = Some material"
    and "generate_content (quiz_prompt n (content material)) = Inr response_text"
    and "loads (clean_quiz_text response_text) = JSONDecodeError"
  shows "generate_quiz (Some generate_content) loads st material_id n =
     (Inr (JObject [success,
        (''quiz'', JObject [(''raw_text'', JString (clean_quiz_text response_text))])]),
      \<lparr>lecture_materials =
         AList.update material_id
           (material\<lparr>quiz := JObject [(''raw_text'', JString (clean_quiz_text response_text))]\<rparr>)
           (lecture_materials st),
       prompts_sent = prompts_sent st @ [quiz_prompt n (content material)]\<rparr>)"
  using assms by (simp add: generate_quiz_returns)

theorem quiz_parse_failure_raw_text_witness:
  "map_of (lecture_materials (run [Upload ''x.pdf'' (Inr [''Hello world''])])) ''x'' =
     Some \<lparr>filename = ''x.pdf'', content = ''Hello world\<newline>'', notes = None, quiz = JNull\<rparr>
   \<and> clean_quiz_text ''I cannot do that'' = ''I cannot do that''
   \<and> fst (generate_quiz (Some (\<lambda>prompt. Inr ''I cannot do that'')) (\<lambda>text. JSONDecodeError)
        (run [Upload ''x.pdf'' (Inr [''Hello world''])]) ''x'' 5) =
       Inr (JObject [success, (''quiz'', JObject [(''raw_text'', JString ''I cannot do that'')])])
   \<and> map_of (lecture_materials (snd (generate_quiz (Some (\<lambda>prompt. Inr ''I cannot do that''))
        (\<lambda>text. JSONDecodeError) (run [Upload ''x.pdf'' (Inr [''Hello world''])]) ''x'' 5))) ''x'' =
       Some \<lparr>filename = ''x.pdf'', content = ''Hello world\<newline>'', notes = None,
             quiz = JObject [(''raw_text'', JString ''I cannot do that'')]\<rparr>"
proof -
  have m: "map_of (lecture_materials (run [Upload ''x.pdf'' (Inr [''Hello world''])])) ''x'' =
     Some \<lparr>filename = ''x.pdf'', content = ''Hello world\<newline>'', notes = None, quiz = JNull\<rparr>"
    by (simp add: run_hello)
  have c: "clean_quiz_text ''I cannot do that'' = ''I cannot do that''"
    by (simp add: clean_quiz_text_def strip_def isspace_def startswith_def)
  from quiz_parse_failure_raw_text [of "run [Upload ''x.pdf'' (Inr [''Hello world''])]" "''x''" _
      "\<lambda>prompt. Inr ''I cannot do that''" 5 "''I cannot do that''" "\<lambda>text. JSONDecodeError", OF m]
  have "generate_quiz (Some (\<lambda>prompt. Inr ''I cannot do that'')) (\<lambda>text. JSONDecodeError)
        (run [Upload ''x.pdf'' (Inr [''Hello world''])]) ''x'' 5 =
     (Inr (JObject [success,
        (''quiz'', JObject [(''raw_text'', JString (clean_quiz_text ''I cannot do that''))])]),
      \<lparr>lecture_materials =
         AList.update ''x''
           (\<lparr>filename = ''x.pdf'', content = ''Hello world\<newline>'', notes = None, quiz = JNull\<rparr>
              \<lparr>quiz := JObject [(''raw_text'', JString (clean_quiz_text ''I cannot do that''))]\<rparr>)
           (lecture_materials (run [Upload ''x.pdf'' (Inr [''Hello world''])])),
       prompts_sent = prompts_sent (run [Upload ''x.pdf'' (Inr [''Hello world''])]) @
          [quiz_prompt 5 (content \<lparr>filename = ''x.pdf'', content = ''Hello world\<newline>'',
              notes = None, quiz = JNull\<rparr>)]\<rparr>)"
    by simp
  with m c show ?thesis by (simp add: run_hello)
qed




section \<open>The content of stored materials\<close>

lemma list_all_update:
  "list_all P al \<Longrightarrow> P (k, v) \<Longrightarrow> list_all P (AList.update k v al)"
  by (induction al) auto

lemma list_all_map_of:
  "list_all P al \<Longrightarrow> map_of al k = Some v \<Longrightarrow> P (k, v)"
  by (auto simp: list_all_iff dest: map_of_SomeD)

lemma content_nonblank_initial: "content_nonblank initial_state"
  by (simp add: content_nonblank_def initial_state_def)

lemma content_nonblank_upload:
  assumes "content_nonblank st"
  shows "content_nonblank (snd (upload_pdf st fname extracted))"
proof (cases "fst (upload_pdf st fname extracted)")
  case (Inl e)
  then have "snd (upload_pdf st fname extracted) = st"
    by (auto simp: upload_pdf_def except_Exception_def JSONResponse_def success_def Let_def split: if_splits sum.splits)
  with assms show ?thesis by simp
next
  case (Inr resp)
  then obtain pages where pages: "extracted = Inr pages" "endswith fname ''.pdf''"
      "strip (text_content pages) \<noteq> []"
    using upload_pdf_Inr_iff by blast
  then have "text_content pages \<noteq> [] \<and> \<not> list_all isspace (text_content pages)"
    using strip_Nil_iff [of "text_content pages"] by auto
  with assms pages show ?thesis
    by (simp add: upload_pdf_success content_nonblank_def list_all_update)
qed

lemma content_nonblank_notes:
  assumes "content_nonblank st"
  shows "content_nonblank (snd (generate_notes model st material_id))"
proof (cases "map_of (lecture_materials st) material_id")
  case None
  with assms show ?thesis by (simp add: generate_notes_def)
next
  case (Some material)
  with assms have "content material \<noteq> [] \<and> \<not> list_all isspace (content material)"
    using list_all_map_of [of _ "lecture_materials st" material_id material]
    by (fastforce simp: content_nonblank_def)
  with assms Some show ?thesis
    by (auto simp: generate_notes_def except_Exception_def JSONResponse_def success_def Let_def content_nonblank_def
        list_all_update split: option.splits sum.splits)
qed

lemma content_nonblank_quiz:
  assumes "content_nonblank st"
  shows "content_nonblank (snd (generate_quiz model loads st material_id n))"
proof (cases "map_of (lecture_materials st) material_id")
  case None
  with assms show ?thesis by (simp add: generate_quiz_def)
next
  case (Some material)
  with assms have "content material \<noteq> [] \<and> \<not> list_all isspace (content material)"
    using list_all_map_of [of _ "lecture_materials st" material_id material]
    by (fastforce simp: content_nonblank_def)
  with assms Some show ?thesis
    by (auto simp: generate_quiz_def except_Exception_def JSONResponse_def success_def Let_def content_nonblank_def
        list_all_update split: option.splits sum.splits loads_result.splits)
qed

lemma content_nonblank_chat:
  "content_nonblank st \<Longrightarrow> content_nonblank (snd (chat_with_tutor model st message material_id))"
  by (auto simp: chat_with_tutor_def except_Exception_def JSONResponse_def success_def Let_def content_nonblank_def
      split: option.splits sum.splits)

lemma content_nonblank_handle:
  "content_nonblank st \<Longrightarrow> content_nonblank (snd (handle st req))"
  by (cases req)
    (simp_all add: content_nonblank_upload content_nonblank_notes content_nonblank_quiz
      content_nonblank_chat list_materials_def get_material_def split: option.splits)

lemma content_nonblank_foldl:
  "content_nonblank st \<Longrightarrow> content_nonblank (foldl (\<lambda>st req. snd (handle st req)) st reqs)"
  by (induction reqs arbitrary: st) (simp_all add: content_nonblank_handle)

text \<open>
  C6. Every stored material has a content that is neither empty nor all whitespace: this
  holds in the empty store the process starts with, every request (upload, generate-notes,
  generate-quiz, chat, list, get), whatever its collaborators answer, keeps it, and so it
  holds after every run of requests.
\<close>

theorem content_never_blank:
  "content_nonblank initial_state
   \<and> (content_nonblank st \<longrightarrow> content_nonblank (snd (handle st req)))
   \<and> content_nonblank (run reqs)"
  by (simp add: content_nonblank_initial content_nonblank_handle content_nonblank_foldl run_def)

theorem content_never_blank_witness:
  "content_nonblank (run [Upload ''x.pdf'' (Inr [''Hello world''])])
   \<and> content_nonblank
        (snd (handle (run [Upload ''x.pdf'' (Inr [''Hello world''])])
           (GenerateNotes (Some (\<lambda>prompt. Inr ''Notes'')) ''x'')))
   \<and> content_nonblank
        (run [Upload ''x.pdf'' (Inr [''Hello world'']), Upload ''y.pdf'' (Inr ['' ''])])"
proof -
  have before: "content_nonblank (run [Upload ''x.pdf'' (Inr [''Hello world''])])"
    by (simp add: run_hello content_nonblank_def isspace_def)
  from content_never_blank [of "run [Upload ''x.pdf'' (Inr [''Hello world''])]"
      "GenerateNotes (Some (\<lambda>prompt. Inr ''Notes'')) ''x''"
      "[Upload ''x.pdf'' (Inr [''Hello world'']), Upload ''y.pdf'' (Inr ['' ''])]"] before
  show ?thesis by blast
qed

section \<open>The claim about retrieval\<close>




end
